theory Spec2Isabelle
  imports Main
begin

section \<open>Python values used by the firewall-rule ledger\<close>

text \<open>
  Python strings are modelled as \<open>string\<close> (lists of 8-bit characters, read as the code
  points 0..255). Integers are unbounded, as Python's. An exception that the source raises
  or lets through is a value of \<open>py_error\<close>; a function that can raise returns
  \<open>py_error + 'a\<close>, with \<open>Inl\<close> for the exception. All of these are subclasses of
  Python's \<open>Exception\<close>, the class that the handlers of the source catch.
\<close>

datatype py_error =
    FileNotFoundError
  | PermissionError
  | IndexError
  | ValueError
  | RuntimeError
  | CalledProcessError
  | OSError

subsection \<open>String primitives\<close>

text \<open>\<open>str.strip()\<close> removes the characters Python counts as white space from both ends.\<close>

definition py_isspace :: "char \<Rightarrow> bool" where
  "py_isspace c = (of_char c \<in> {9, 10, 11, 12, 13, 28, 29, 30, 31, 32, 133, 160 :: nat})"

definition strip_by :: "(char \<Rightarrow> bool) \<Rightarrow> string \<Rightarrow> string" where
  "strip_by p s = rev (dropWhile p (rev (dropWhile p s)))"

definition py_strip :: "string \<Rightarrow> string" where
  "py_strip s = strip_by py_isspace s"

text \<open>\<open>s.strip(chars)\<close> removes from both ends every character that occurs in \<open>chars\<close>.\<close>

definition py_strip_chars :: "string \<Rightarrow> string \<Rightarrow> string" where
  "py_strip_chars chars s = strip_by (\<lambda>c. c \<in> set chars) s"

definition startswith :: "string \<Rightarrow> string \<Rightarrow> bool" where
  "startswith s p = (take (length p) s = p)"

definition endswith :: "string \<Rightarrow> string \<Rightarrow> bool" where
  "endswith s p = (length p \<le> length s \<and> drop (length s - length p) s = p)"

text \<open>\<open>sub in s\<close>: the substring test.\<close>

fun py_in :: "string \<Rightarrow> string \<Rightarrow> bool" where
  "py_in sub [] = (sub = [])"
| "py_in sub (c # cs) = (startswith (c # cs) sub \<or> py_in sub cs)"

text \<open>\<open>s.split(sep)\<close> for a one-character separator; the result is never empty.\<close>

fun py_split :: "char \<Rightarrow> string \<Rightarrow> string list" where
  "py_split sep [] = [[]]"
| "py_split sep (c # cs) =
     (if c = sep then [] # py_split sep cs
      else (case py_split sep cs of
              [] \<Rightarrow> [[c]]
            | p # ps \<Rightarrow> (c # p) # ps))"

text \<open>\<open>sep.join(parts)\<close>.\<close>

fun py_join :: "string \<Rightarrow> string list \<Rightarrow> string" where
  "py_join sep [] = []"
| "py_join sep [p] = p"
| "py_join sep (p # q # ps) = p @ sep @ py_join sep (q # ps)"

subsection \<open>Decimal conversion: \<open>str(n)\<close> and \<open>int(s)\<close>\<close>

definition digit_char :: "nat \<Rightarrow> char" where
  "digit_char d = char_of (48 + d)"

definition is_digit :: "char \<Rightarrow> bool" where
  "is_digit c = (48 \<le> (of_char c :: nat) \<and> (of_char c :: nat) \<le> 57)"

definition digit_val :: "char \<Rightarrow> nat" where
  "digit_val c = of_char c - 48"

fun str_nat :: "nat \<Rightarrow> string" where
  "str_nat n = (if n < 10 then [digit_char n] else str_nat (n div 10) @ [digit_char (n mod 10)])"

declare str_nat.simps [simp del]

definition py_str :: "int \<Rightarrow> string" where
  "py_str i = (if i < 0 then CHR ''-'' # str_nat (nat (- i)) else str_nat (nat i))"

text \<open>
  \<open>int(s)\<close> in base 10: surrounding white space is ignored, one sign is allowed, and the
  digits may be grouped by single underscores. Anything else is a \<open>ValueError\<close>, here
  \<open>None\<close>. The white space that \<open>int\<close> skips is narrower than what \<open>strip()\<close> removes:
  the separators 28 to 31 are not skipped. \<open>int_digits acc cs\<close> reads the rest of a
  numeral whose previous character was a digit.
\<close>

definition int_isspace :: "char \<Rightarrow> bool" where
  "int_isspace c = (of_char c \<in> {9, 10, 11, 12, 13, 32, 133, 160 :: nat})"

fun int_digits :: "nat \<Rightarrow> string \<Rightarrow> nat option" where
  "int_digits acc [] = Some acc"
| "int_digits acc (c # cs) =
     (if is_digit c then int_digits (acc * 10 + digit_val c) cs
      else if c = CHR ''_'' then
        (case cs of
           [] \<Rightarrow> None
         | d # ds \<Rightarrow> if is_digit d then int_digits (acc * 10 + digit_val d) ds else None)
      else None)"

definition int_unsigned :: "string \<Rightarrow> nat option" where
  "int_unsigned s =
     (case s of
        [] \<Rightarrow> None
      | c # cs \<Rightarrow> if is_digit c then int_digits (digit_val c) cs else None)"

definition py_int :: "string \<Rightarrow> int option" where
  "py_int s =
     (case strip_by int_isspace s of
        [] \<Rightarrow> None
      | c # cs \<Rightarrow>
          if c = CHR ''-'' then map_option (\<lambda>n. - int n) (int_unsigned cs)
          else if c = CHR ''+'' then map_option int (int_unsigned cs)
          else map_option int (int_unsigned (c # cs)))"

subsection \<open>Paths and the heartbeat directory\<close>

text \<open>\<open>os.path.join(a, b)\<close> on a POSIX system, for two components.\<close>

definition path_join :: "string \<Rightarrow> string \<Rightarrow> string" where
  "path_join a b =
     (if startswith b ''/'' then b
      else if a = [] \<or> endswith a ''/'' then a @ b
      else a @ ''/'' @ b)"

text \<open>
  The file system as the heartbeat code sees it: a path is absent, or names a regular file
  with a modification time (already truncated to whole seconds, as \<open>int(st.st_mtime)\<close>
  does), or names an entry on which the operating system refuses the call (raising an
  \<open>OSError\<close> other than \<open>FileNotFoundError\<close>).
\<close>

datatype fs_entry = Regular_file int | Denied

type_synonym filesystem = "string \<rightharpoonup> fs_entry"

definition os_stat :: "filesystem \<Rightarrow> string \<Rightarrow> py_error + int" where
  "os_stat fs path =
     (case fs path of
        None \<Rightarrow> Inl FileNotFoundError
      | Some (Regular_file mtime) \<Rightarrow> Inr mtime
      | Some Denied \<Rightarrow> Inl PermissionError)"

definition os_unlink :: "filesystem \<Rightarrow> string \<Rightarrow> py_error + filesystem" where
  "os_unlink fs path =
     (case fs path of
        None \<Rightarrow> Inl FileNotFoundError
      | Some (Regular_file mtime) \<Rightarrow> Inr (fs(path := None))
      | Some Denied \<Rightarrow> Inl PermissionError)"

definition hb_path_of :: "string \<Rightarrow> string \<Rightarrow> string" where
  "hb_path_of heartbeat_dir suid = path_join heartbeat_dir (suid @ ''.hb'')"

text \<open>
  \<open>heartbeat_remove\<close>: unlink the heartbeat file; a missing file counts as success, any
  other exception gives \<open>False\<close>. The result is the returned flag and the file system
  afterwards.
\<close>

definition heartbeat_remove :: "filesystem \<Rightarrow> string \<Rightarrow> string \<Rightarrow> bool \<times> filesystem" where
  "heartbeat_remove fs suid heartbeat_dir =
     (let hb_path = hb_path_of heartbeat_dir suid in
      case os_unlink fs hb_path of
        Inr fs' \<Rightarrow> (True, fs')
      | Inl FileNotFoundError \<Rightarrow> (True, fs)
      | Inl e \<Rightarrow> (False, fs))"

section \<open>Rule comments: \<open>_comment_for\<close> and \<open>_parse_comment\<close>\<close>

definition COMMENT_PREFIX :: string where
  "COMMENT_PREFIX = ''Stormshadow''"

text \<open>
  \<open>_comment_for(suid, created_ts, extra, preserve)\<close>. A missing \<open>created_ts\<close> is replaced
  by the clock reading \<open>now\<close>; \<open>extra\<close> is appended only when it is neither \<open>None\<close> nor
  the empty string (Python's truth test).
\<close>

definition comment_for :: "int \<Rightarrow> string \<Rightarrow> int option \<Rightarrow> string option \<Rightarrow> bool \<Rightarrow> string" where
  "comment_for now suid created_ts extra preserve =
     (let ts = (case created_ts of None \<Rightarrow> now | Some t \<Rightarrow> t);
          parts = [COMMENT_PREFIX, suid, py_str ts];
          parts = (case extra of
                     None \<Rightarrow> parts
                   | Some e \<Rightarrow> if e \<noteq> [] then parts @ [e] else parts);
          parts = (if preserve then parts @ [''NOT_DELETE''] else parts)
      in py_join '':'' parts)"

text \<open>
  \<open>_parse_comment(comment)\<close>: \<open>None\<close> when the text is not one of ours. The
  \<open>ValueError\<close> of \<open>int(ts)\<close> is caught by the function's \<open>except Exception\<close> and gives
  \<open>None\<close> as well.
\<close>

definition parse_comment :: "string \<Rightarrow> (string \<times> int \<times> string option \<times> bool) option" where
  "parse_comment comment =
     (if comment = [] \<or> \<not> py_in COMMENT_PREFIX comment then None
      else
        let raw = py_strip (py_strip_chars ''*/'' (py_strip_chars ''/*'' (py_strip comment))) in
        if \<not> startswith raw (COMMENT_PREFIX @ '':'') then None
        else
          let parts = py_split CHR '':'' raw in
          if length parts < 3 then None
          else
            (case py_int (parts ! 2) of
               None \<Rightarrow> None
             | Some created_ts \<Rightarrow>
                 let suid = parts ! 1;
                     remaining_parts = drop 3 parts;
                     preserve = (remaining_parts \<noteq> [] \<and> last remaining_parts = ''NOT_DELETE'');
                     remaining_parts = (if preserve then butlast remaining_parts
                                        else remaining_parts);
                     extra = (if remaining_parts \<noteq> [] then Some (py_join '':'' remaining_parts)
                              else None)
                 in Some (suid, created_ts, extra, preserve)))"

text \<open>
  The characters that \<open>_parse_comment\<close> strips from both ends of a comment before it looks
  for the prefix: white space and the comment markers \<open>/\<close> and \<open>*\<close>.
\<close>

definition comment_edge :: "char \<Rightarrow> bool" where
  "comment_edge c = (py_isspace c \<or> c = CHR ''/'' \<or> c = CHR ''*'')"

section \<open>Garbage collection: the decision \<open>should_remove\<close>\<close>

text \<open>
  The closure \<open>should_remove\<close> of \<open>cleanup_stale_rules\<close>, with the variables it captures
  (\<open>now\<close>, \<open>ttl_seconds\<close>, \<open>heartbeat_dir\<close>) and the file system as parameters. It returns
  the owner whose rules are to be removed, or \<open>None\<close> to keep the rule. Only
  \<open>FileNotFoundError\<close> is caught around \<open>os.stat\<close>; another error leaves the closure as an
  exception.
\<close>

definition half_ttl_of :: "int \<Rightarrow> int" where
  "half_ttl_of ttl_seconds = max 60 (ttl_seconds div 2)"

definition should_remove ::
  "int \<Rightarrow> int \<Rightarrow> string \<Rightarrow> filesystem \<Rightarrow> string \<Rightarrow> py_error + string option" where
  "should_remove now ttl_seconds heartbeat_dir fs comment_text =
     (case parse_comment comment_text of
        None \<Rightarrow> Inr None
      | Some (suid, created_ts, extra, preserve) \<Rightarrow>
          if preserve then Inr None
          else
            let age = now - created_ts;
                hb_path = path_join heartbeat_dir (suid @ ''.hb'')
            in (case os_stat fs hb_path of
                  Inr mtime \<Rightarrow>
                    let hb_fresh = (now - mtime < half_ttl_of ttl_seconds) in
                    if \<not> hb_fresh \<or> age \<ge> ttl_seconds then Inr (Some suid) else Inr None
                | Inl FileNotFoundError \<Rightarrow>
                    let hb_fresh = False in
                    if \<not> hb_fresh \<or> age \<ge> ttl_seconds then Inr (Some suid) else Inr None
                | Inl e \<Rightarrow> Inl e))"

section \<open>The rewrite worker: \<open>Spoofer\<close>\<close>










section \<open>The coordinator: \<open>SipPacketSpoofer.start_spoofing\<close>\<close>








section \<open>Removing rules by owner\<close>

definition STORMSHADOW_CHAIN :: string where
  "STORMSHADOW_CHAIN = ''STORMSHADOW''"

definition STORMSHADOW_NAT_CHAIN :: string where
  "STORMSHADOW_NAT_CHAIN = ''STORMSHADOW-NAT''"

text \<open>
  The firewall as the listing command shows it: for a table and a chain, the lines that
  \<open>iptables -t table -S chain\<close> prints, or \<open>None\<close> when the chain does not exist in that
  table.
\<close>

type_synonym firewall = "string \<times> string \<Rightarrow> string list option"

text \<open>
  Running an external command is a parameter of the model: \<open>run\<close> takes the command text
  and the firewall and gives the output lines and the firewall afterwards, or the
  exception (\<open>CalledProcessError\<close> for a non-zero exit status).
\<close>

type_synonym runner = "string \<Rightarrow> firewall \<Rightarrow> py_error + (string list \<times> firewall)"

text \<open>
  \<open>shlex.split(command)\<close> raises \<open>ValueError\<close> when the text ends inside a quotation
  or right after a backslash. \<open>shlex_closed st cs\<close> reads \<open>cs\<close> from the lexer state
  \<open>st\<close> and says whether the text ends in a state where the lexer accepts the end.
\<close>

datatype shlex_state = Plain | In_single | In_double | Escaped | Escaped_in_double

fun shlex_closed :: "shlex_state \<Rightarrow> string \<Rightarrow> bool" where
  "shlex_closed st [] = (st = Plain)"
| "shlex_closed Plain (c # cs) =
     (if c = CHR 0x27 then shlex_closed In_single cs
      else if c = CHR 0x22 then shlex_closed In_double cs
      else if c = CHR 0x5C then shlex_closed Escaped cs
      else shlex_closed Plain cs)"
| "shlex_closed In_single (c # cs) =
     (if c = CHR 0x27 then shlex_closed Plain cs else shlex_closed In_single cs)"
| "shlex_closed In_double (c # cs) =
     (if c = CHR 0x22 then shlex_closed Plain cs
      else if c = CHR 0x5C then shlex_closed Escaped_in_double cs
      else shlex_closed In_double cs)"
| "shlex_closed Escaped (c # cs) = shlex_closed Plain cs"
| "shlex_closed Escaped_in_double (c # cs) = shlex_closed In_double cs"

text \<open>
  \<open>run_command_str\<close> splits the command text first, and in dry-run mode \<open>run_command\<close>
  then raises \<open>RuntimeError\<close> instead of running anything.
\<close>

definition run_command_str ::
  "runner \<Rightarrow> string \<Rightarrow> bool \<Rightarrow> firewall \<Rightarrow> py_error + (string list \<times> firewall)" where
  "run_command_str run command dry_run fw =
     (if \<not> shlex_closed Plain command then Inl ValueError
      else if dry_run then Inl RuntimeError
      else run command fw)"

text \<open>\<open>s.replace(old, new, 1)\<close>: the first occurrence only.\<close>

fun replace_first :: "string \<Rightarrow> string \<Rightarrow> string \<Rightarrow> string" where
  "replace_first old new [] = (if old = [] then new else [])"
| "replace_first old new (c # cs) =
     (if startswith (c # cs) old then new @ drop (length old) (c # cs)
      else c # replace_first old new cs)"

text \<open>
  \<open>_iptables_S(chain, table)\<close>: the non-blank lines of the listing; a failing listing
  command gives the empty list. An absent \<open>chain\<close> or \<open>table\<close> is the empty string here
  (both are false in Python's truth test).
\<close>

definition iptables_S ::
  "runner \<Rightarrow> string \<Rightarrow> string \<Rightarrow> firewall \<Rightarrow> py_error + (string list \<times> firewall)" where
  "iptables_S run chain table fw =
     (let base = (if table \<noteq> [] then ''iptables -t '' @ table @ '' -S'' else ''iptables -S'');
          base = (if chain \<noteq> [] then base @ '' '' @ chain else base)
      in case run_command_str run base False fw of
           Inr (out, fw') \<Rightarrow> Inr (filter (\<lambda>l. py_strip l \<noteq> []) out, fw')
         | Inl CalledProcessError \<Rightarrow> Inr ([], fw)
         | Inl e \<Rightarrow> Inl e)"

text \<open>
  The loop of \<open>remove_rules_for_suid\<close> over the listed lines: a line is selected when it
  contains the comment option, the prefix and the owner id as substrings; its \<open>-A\<close> is
  turned into \<open>-D\<close> and the command is run. A \<open>CalledProcessError\<close> is logged and the
  loop goes on; any other exception leaves the function.
\<close>

fun remove_matching ::
  "runner \<Rightarrow> string \<Rightarrow> string \<Rightarrow> bool \<Rightarrow> string list \<Rightarrow> nat \<Rightarrow> firewall
   \<Rightarrow> (py_error + nat) \<times> firewall" where
  "remove_matching run suid table dry_run [] removed fw = (Inr removed, fw)"
| "remove_matching run suid table dry_run (line # lines) removed fw =
     (if py_in ''-m comment --comment'' line \<and> py_in COMMENT_PREFIX line \<and> py_in suid line
      then
        (let delete = replace_first ''-A'' ''-D'' line in
         case run_command_str run (''iptables -t '' @ table @ '' '' @ delete) dry_run fw of
           Inr (out, fw') \<Rightarrow> remove_matching run suid table dry_run lines (removed + 1) fw'
         | Inl CalledProcessError \<Rightarrow> remove_matching run suid table dry_run lines removed fw
         | Inl e \<Rightarrow> (Inl e, fw))
      else remove_matching run suid table dry_run lines removed fw)"

definition remove_rules_for_suid ::
  "runner \<Rightarrow> string \<Rightarrow> string \<Rightarrow> string \<Rightarrow> bool \<Rightarrow> firewall \<Rightarrow> (py_error + nat) \<times> firewall" where
  "remove_rules_for_suid run suid table chain dry_run fw =
     (case iptables_S run chain table fw of
        Inl e \<Rightarrow> (Inl e, fw)
      | Inr (lines, fw') \<Rightarrow> remove_matching run suid table dry_run lines 0 fw')"

section \<open>Garbage collection: \<open>cleanup_stale_rules\<close>\<close>

subsection \<open>The heartbeat sweep\<close>

text \<open>
  The loop of \<open>cleanup_stale_heartbeats\<close> over the file names that \<open>os.listdir\<close>
  returned: a name ending in \<open>.hb\<close> whose file has an age of at least \<open>ttl_seconds\<close> is
  unlinked and counted; an error of \<open>os.stat\<close> or \<open>os.unlink\<close> on one file is logged and
  the loop goes on.
\<close>

fun sweep_heartbeats ::
  "int \<Rightarrow> int \<Rightarrow> string \<Rightarrow> string list \<Rightarrow> nat \<Rightarrow> filesystem \<Rightarrow> nat \<times> filesystem" where
  "sweep_heartbeats now ttl_seconds heartbeat_dir [] removed_count fs = (removed_count, fs)"
| "sweep_heartbeats now ttl_seconds heartbeat_dir (filename # filenames) removed_count fs =
     (if \<not> endswith filename ''.hb''
      then sweep_heartbeats now ttl_seconds heartbeat_dir filenames removed_count fs
      else
        let hb_path = path_join heartbeat_dir filename in
        case os_stat fs hb_path of
          Inl e \<Rightarrow> sweep_heartbeats now ttl_seconds heartbeat_dir filenames removed_count fs
        | Inr mtime \<Rightarrow>
            if now - mtime \<ge> ttl_seconds then
              (case os_unlink fs hb_path of
                 Inl e \<Rightarrow>
                   sweep_heartbeats now ttl_seconds heartbeat_dir filenames removed_count fs
               | Inr fs' \<Rightarrow>
                   sweep_heartbeats now ttl_seconds heartbeat_dir filenames
                     (removed_count + 1) fs')
            else sweep_heartbeats now ttl_seconds heartbeat_dir filenames removed_count fs)"

text \<open>
  \<open>cleanup_stale_heartbeats\<close>. \<open>dir_listing\<close> is what the directory gives: \<open>None\<close>
  when it does not exist or cannot be listed (the function then returns 0), otherwise the
  names \<open>os.listdir\<close> returns. In dry-run mode nothing is looked at.
\<close>

definition cleanup_stale_heartbeats ::
  "int \<Rightarrow> int \<Rightarrow> string \<Rightarrow> bool \<Rightarrow> string list option \<Rightarrow> filesystem \<Rightarrow> nat \<times> filesystem" where
  "cleanup_stale_heartbeats now ttl_seconds heartbeat_dir dry_run dir_listing fs =
     (if dry_run then (0, fs)
      else
        (case dir_listing of
           None \<Rightarrow> (0, fs)
         | Some filenames \<Rightarrow> sweep_heartbeats now ttl_seconds heartbeat_dir filenames 0 fs))"

subsection \<open>Finding the comment in a listed line\<close>

text \<open>
  The anchor loops find the comment with
  \<open>re.search('--comment\<bslash>s+"([^"]+)"', line)\<close>. \<open>comment_match_here s\<close> tries the
  pattern at the start of \<open>s\<close>: the word \<open>--comment\<close>, at least one white-space
  character, a double quote, at least one character other than a double quote, and a
  closing double quote; the result is the quoted text. The repetitions of the pattern
  are followed by a character they cannot match, so the longest runs are the only
  candidates. \<open>comment_search\<close> takes the first position where the pattern matches.
\<close>

definition comment_match_here :: "string \<Rightarrow> string option" where
  "comment_match_here s =
     (if \<not> startswith s ''--comment'' then None
      else
        let r = drop 9 s in
        if takeWhile py_isspace r = [] then None
        else
          (case dropWhile py_isspace r of
             [] \<Rightarrow> None
           | q # t \<Rightarrow>
               if q \<noteq> CHR 0x22 then None
               else
                 let body = takeWhile (\<lambda>c. c \<noteq> CHR 0x22) t in
                 if body = [] \<or> dropWhile (\<lambda>c. c \<noteq> CHR 0x22) t = [] then None
                 else Some body))"

fun comment_search :: "string \<Rightarrow> string option" where
  "comment_search [] = None"
| "comment_search (c # cs) =
     (case comment_match_here (c # cs) of
        Some body \<Rightarrow> Some body
      | None \<Rightarrow> comment_search cs)"

text \<open>
  \<open>after_first sub s\<close> is \<open>s.split(sub, 1)[1]\<close>: the text after the first occurrence of
  \<open>sub\<close>, or the \<open>IndexError\<close> (here \<open>None\<close>) when \<open>sub\<close> does not occur.
\<close>

fun after_first :: "string \<Rightarrow> string \<Rightarrow> string option" where
  "after_first sub [] = None"
| "after_first sub (c # cs) =
     (if startswith (c # cs) sub then Some (drop (length sub) (c # cs))
      else after_first sub cs)"

text \<open>
  The loops over the dedicated chains cut the comment text out of the line with
  \<open>line.split("--comment", 1)[1].strip().split(" ", 1)[1].strip().strip("'\<bslash>"")\<close> and
  fall back to the whole line when an index is missing. The second split keeps what
  follows the first space, that is, what follows the first word after \<open>--comment\<close>.
\<close>

definition comment_cut :: "string \<Rightarrow> string" where
  "comment_cut line =
     (case after_first ''--comment'' line of
        None \<Rightarrow> line
      | Some a \<Rightarrow>
          (case after_first '' '' (py_strip a) of
             None \<Rightarrow> line
           | Some b \<Rightarrow> py_strip_chars [CHR 0x27, CHR 0x22] (py_strip b)))"

subsection \<open>The loops over the chains\<close>

text \<open>
  A line of an anchor chain is looked at when it contains the jump to the dedicated
  chain, the comment option and the prefix.
\<close>

definition anchor_selected :: "string \<Rightarrow> bool" where
  "anchor_selected line =
     (py_in (''-j '' @ STORMSHADOW_CHAIN) line \<and> py_in ''-m comment --comment'' line
      \<and> py_in COMMENT_PREFIX line)"

text \<open>
  \<open>anchor_condemned\<close> says that the turn for this line runs the delete command: the line
  is looked at, the pattern finds a quoted comment, and \<open>should_remove\<close> returns a
  non-empty owner for it.
\<close>

definition anchor_condemned :: "int \<Rightarrow> int \<Rightarrow> string \<Rightarrow> filesystem \<Rightarrow> string \<Rightarrow> bool" where
  "anchor_condemned now ttl_seconds heartbeat_dir fs line =
     (anchor_selected line \<and>
      (case comment_search line of
         None \<Rightarrow> False
       | Some comment_text \<Rightarrow>
           (case should_remove now ttl_seconds heartbeat_dir fs comment_text of
              Inr (Some candidate) \<Rightarrow> candidate \<noteq> []
            | _ \<Rightarrow> False)))"

text \<open>
  One turn of the loop over an anchor chain, on the count and the firewall. The delete
  command is run when \<open>should_remove\<close> returns a non-empty owner for the quoted comment.
  Whatever is raised inside the turn (by \<open>should_remove\<close>, by the command) is logged by
  one of the two handlers, and the turn ends with count and firewall as they were.
\<close>

definition anchor_turn ::
  "runner \<Rightarrow> int \<Rightarrow> int \<Rightarrow> string \<Rightarrow> filesystem \<Rightarrow> bool \<Rightarrow> string \<Rightarrow> nat \<times> firewall
   \<Rightarrow> nat \<times> firewall" where
  "anchor_turn run now ttl_seconds heartbeat_dir fs dry_run line st =
     (if \<not> anchor_selected line then st
      else
        (case comment_search line of
           None \<Rightarrow> st
         | Some comment_text \<Rightarrow>
             (case should_remove now ttl_seconds heartbeat_dir fs comment_text of
                Inl e \<Rightarrow> st
              | Inr None \<Rightarrow> st
              | Inr (Some candidate) \<Rightarrow>
                  if candidate = [] then st
                  else
                    let delete_rule = replace_first ''-A'' ''-D'' line in
                    (case run_command_str run (''iptables -t filter '' @ delete_rule)
                            dry_run (snd st) of
                       Inl e \<Rightarrow> st
                     | Inr (out, fw') \<Rightarrow> (fst st + 1, fw')))))"

text \<open>
  The loop over one anchor chain of the filter table. Only an exception of the listing
  command other than \<open>CalledProcessError\<close> leaves it.
\<close>

definition cleanup_anchor_chain ::
  "runner \<Rightarrow> int \<Rightarrow> int \<Rightarrow> string \<Rightarrow> filesystem \<Rightarrow> bool \<Rightarrow> string \<Rightarrow> nat \<times> firewall
   \<Rightarrow> py_error + nat \<times> firewall" where
  "cleanup_anchor_chain run now ttl_seconds heartbeat_dir fs dry_run anchor_chain st =
     (case iptables_S run anchor_chain ''filter'' (snd st) of
        Inl e \<Rightarrow> Inl e
      | Inr (anchor_lines, fw') \<Rightarrow>
          Inr (foldl (\<lambda>st line. anchor_turn run now ttl_seconds heartbeat_dir fs dry_run line st)
                 (fst st, fw') anchor_lines))"

text \<open>
  The loop over a dedicated chain, on the lines listed before the loop started. For a
  line with the comment option and the prefix, \<open>should_remove\<close> gets the cut text, and a
  non-empty owner it returns is handed to \<open>remove_rules_for_suid\<close> for this table and
  chain. Nothing is caught here: an exception of \<open>should_remove\<close> or of the removal
  leaves the loop, with the firewall as it is by then.
\<close>

fun dedicated_sweep ::
  "runner \<Rightarrow> int \<Rightarrow> int \<Rightarrow> string \<Rightarrow> filesystem \<Rightarrow> bool \<Rightarrow> string \<Rightarrow> string \<Rightarrow> string list
   \<Rightarrow> nat \<Rightarrow> firewall \<Rightarrow> (py_error + nat) \<times> firewall" where
  "dedicated_sweep run now ttl_seconds heartbeat_dir fs dry_run table chain [] removed_total fw
     = (Inr removed_total, fw)"
| "dedicated_sweep run now ttl_seconds heartbeat_dir fs dry_run table chain (line # lines)
     removed_total fw =
     (if py_in ''-m comment --comment'' line \<and> py_in COMMENT_PREFIX line then
        (case should_remove now ttl_seconds heartbeat_dir fs (comment_cut line) of
           Inl e \<Rightarrow> (Inl e, fw)
         | Inr None \<Rightarrow>
             dedicated_sweep run now ttl_seconds heartbeat_dir fs dry_run table chain lines
               removed_total fw
         | Inr (Some candidate) \<Rightarrow>
             if candidate = [] then
               dedicated_sweep run now ttl_seconds heartbeat_dir fs dry_run table chain lines
                 removed_total fw
             else
               (case remove_rules_for_suid run candidate table chain dry_run fw of
                  (Inl e, fw') \<Rightarrow> (Inl e, fw')
                | (Inr removed, fw') \<Rightarrow>
                    dedicated_sweep run now ttl_seconds heartbeat_dir fs dry_run table chain
                      lines (removed_total + removed) fw'))
      else
        dedicated_sweep run now ttl_seconds heartbeat_dir fs dry_run table chain lines
          removed_total fw)"

definition cleanup_dedicated_chain ::
  "runner \<Rightarrow> int \<Rightarrow> int \<Rightarrow> string \<Rightarrow> filesystem \<Rightarrow> bool \<Rightarrow> string \<Rightarrow> string \<Rightarrow> nat \<times> firewall
   \<Rightarrow> (py_error + nat) \<times> firewall" where
  "cleanup_dedicated_chain run now ttl_seconds heartbeat_dir fs dry_run table chain st =
     (case iptables_S run chain table (snd st) of
        Inl e \<Rightarrow> (Inl e, snd st)
      | Inr (lines, fw') \<Rightarrow>
          dedicated_sweep run now ttl_seconds heartbeat_dir fs dry_run table chain lines
            (fst st) fw')"

text \<open>
  \<open>cleanup_stale_rules\<close>: the heartbeat sweep, then the loops over the anchor chains
  \<open>INPUT\<close>, \<open>OUTPUT\<close> and \<open>FORWARD\<close> of the filter table, then the loops over the two
  dedicated chains. The clock is read once in the heartbeat sweep (\<open>now_hb\<close>) and once
  for the rules (\<open>now\<close>). The result is the count or the exception that left the
  function, with the heartbeat directory and the firewall as they are at that point.
\<close>

definition cleanup_stale_rules ::
  "runner \<Rightarrow> int \<Rightarrow> int \<Rightarrow> int \<Rightarrow> string \<Rightarrow> bool \<Rightarrow> string list option \<Rightarrow> filesystem \<Rightarrow> firewall
   \<Rightarrow> (py_error + nat) \<times> filesystem \<times> firewall" where
  "cleanup_stale_rules run now_hb now ttl_seconds heartbeat_dir dry_run dir_listing fs0 fw0 =
     (let fs = snd (cleanup_stale_heartbeats now_hb ttl_seconds heartbeat_dir dry_run
                      dir_listing fs0)
      in
      case cleanup_anchor_chain run now ttl_seconds heartbeat_dir fs dry_run ''INPUT'' (0, fw0) of
        Inl e \<Rightarrow> (Inl e, fs, fw0)
      | Inr st1 \<Rightarrow>
      (case cleanup_anchor_chain run now ttl_seconds heartbeat_dir fs dry_run ''OUTPUT'' st1 of
        Inl e \<Rightarrow> (Inl e, fs, snd st1)
      | Inr st2 \<Rightarrow>
      (case cleanup_anchor_chain run now ttl_seconds heartbeat_dir fs dry_run ''FORWARD'' st2 of
        Inl e \<Rightarrow> (Inl e, fs, snd st2)
      | Inr st3 \<Rightarrow>
      (case cleanup_dedicated_chain run now ttl_seconds heartbeat_dir fs dry_run
              ''filter'' STORMSHADOW_CHAIN st3 of
        (Inl e, fw4) \<Rightarrow> (Inl e, fs, fw4)
      | (Inr n4, fw4) \<Rightarrow>
      (case cleanup_dedicated_chain run now ttl_seconds heartbeat_dir fs dry_run
              ''nat'' STORMSHADOW_NAT_CHAIN (n4, fw4) of
        (r, fw5) \<Rightarrow> (r, fs, fw5))))))"

section \<open>The attack session: \<open>AttackSession.stop\<close>\<close>

datatype attack_status = INITIALIZED | RUNNING | STOPPED | FAILED | COMPLETED

record attack_session =
  session_dry_run :: bool
  session_status :: attack_status
  enable_spoofing :: bool
  session_suid :: string
  use_default_spoofing :: bool

text \<open>
  The attack module behind the session (\<open>main_attack\<close>): its dry-run flag and its
  \<open>stop_spoofing\<close> and \<open>stop\<close> methods, each of which may change the firewall and may
  raise.
\<close>

record attack_interface =
  dry_run_implemented :: bool
  attack_stop_spoofing :: "firewall \<Rightarrow> py_error option \<times> firewall"
  attack_stop :: "firewall \<Rightarrow> py_error option \<times> firewall"

text \<open>
  \<open>AttackSession.stop\<close>. Both branches of the test on \<open>use_default_spoofing\<close> call the
  module's \<open>stop_spoofing\<close>, whose exception is logged. An exception of the module's
  \<open>stop\<close> is caught by the outer handler, before the status changes. The two final
  removals share one \<open>try\<close>: the second call names the table \<open>nat\<close> and leaves the chain
  at its default, \<open>STORMSHADOW_CHAIN\<close>.
\<close>

definition AttackSession_stop ::
  "runner \<Rightarrow> attack_interface \<Rightarrow> attack_session \<Rightarrow> firewall \<Rightarrow> attack_session \<times> firewall" where
  "AttackSession_stop run main_attack sess fw =
     (if session_dry_run sess \<and> \<not> dry_run_implemented main_attack then (sess, fw)
      else
        let fw1 = (if enable_spoofing sess then snd (attack_stop_spoofing main_attack fw) else fw)
        in case attack_stop main_attack fw1 of
             (Some e, fw2) \<Rightarrow> (sess, fw2)
           | (None, fw2) \<Rightarrow>
               (let sess' = sess\<lparr>session_status := STOPPED\<rparr> in
                case remove_rules_for_suid run (session_suid sess) ''filter'' STORMSHADOW_CHAIN
                       (session_dry_run sess) fw2 of
                  (Inl e, fw3) \<Rightarrow> (sess', fw3)
                | (Inr n, fw3) \<Rightarrow>
                    (sess', snd (remove_rules_for_suid run (session_suid sess) ''nat''
                                   STORMSHADOW_CHAIN (session_dry_run sess) fw3))))"

section \<open>The firewall tool\<close>

text \<open>
  A model of the external \<open>iptables\<close> program for the two commands used above, taken from
  its documented behaviour: \<open>-S chain\<close> prints the chain's lines and fails when the chain
  does not exist; \<open>-D chain spec\<close> deletes the first rule of the chain that the listing
  shows as \<open>-A chain spec\<close> and fails when there is none.
\<close>

definition iptables :: runner where
  "iptables command fw =
     (let w = py_split CHR '' '' command in
      if length w = 5 \<and> take 2 w = [''iptables'', ''-t''] \<and> w ! 3 = ''-S'' then
        (case fw (w ! 2, w ! 4) of
           None \<Rightarrow> Inl CalledProcessError
         | Some lines \<Rightarrow> Inr (lines, fw))
      else if length w > 5 \<and> take 2 w = [''iptables'', ''-t''] \<and> w ! 3 = ''-D'' then
        (let rule = ''-A '' @ py_join '' '' (drop 4 w) in
         case fw (w ! 2, w ! 4) of
           None \<Rightarrow> Inl CalledProcessError
         | Some lines \<Rightarrow>
             if rule \<in> set lines
             then Inr ([], fw((w ! 2, w ! 4) \<mapsto> remove1 rule lines))
             else Inl CalledProcessError)
      else Inl CalledProcessError)"

section \<open>Facts about splitting, stripping and decimal conversion\<close>

lemma py_split_nonempty: "py_split sep s \<noteq> []"
  by (induction s) (auto split: list.splits)

lemma py_split_no_sep: "sep \<notin> set s \<Longrightarrow> py_split sep s = [s]"
  by (induction s) auto

lemma py_split_append_sep:
  "py_split sep (a @ sep # b) = py_split sep a @ py_split sep b"
  by (induction a) (auto split: list.splits simp: py_split_nonempty)

lemma py_join_split: "py_join [sep] (py_split sep s) = s"
proof (induction s)
  case Nil
  show ?case by simp
next
  case (Cons c s)
  obtain p ps where sp: "py_split sep s = p # ps"
    using py_split_nonempty [of sep s] by (cases "py_split sep s") auto
  show ?case
    using Cons sp by (cases ps) auto
qed

lemma py_join_snoc:
  "py_join sep (ps @ [q]) = (if ps = [] then q else py_join sep ps @ sep @ q)"
  by (induction sep ps rule: py_join.induct) auto

lemma dropWhile_hd_id: "xs \<noteq> [] \<Longrightarrow> \<not> p (hd xs) \<Longrightarrow> dropWhile p xs = xs"
  by (cases xs) auto

lemma strip_by_id:
  "s \<noteq> [] \<Longrightarrow> \<not> p (hd s) \<Longrightarrow> \<not> p (last s) \<Longrightarrow> strip_by p s = s"
  by (simp add: strip_by_def dropWhile_hd_id hd_rev)

lemma strip_by_prefix: "\<exists>x. strip_by p s @ x = dropWhile p s"
proof -
  have "rev (dropWhile p (rev (dropWhile p s))) @ rev (takeWhile p (rev (dropWhile p s)))
          = dropWhile p s"
    by (metis rev_append rev_rev_ident takeWhile_dropWhile_id)
  then show ?thesis unfolding strip_by_def by blast
qed

lemma dropWhile_skip:
  assumes "\<forall>c \<in> set u. U c" and "P \<noteq> []" and "\<not> U (hd P)"
  shows "dropWhile U (u @ P @ r) = P @ r"
  using assms by (cases P) (auto simp: dropWhile_append3 dropWhile_append)

lemma dropWhile_decomp:
  "\<exists>u. s = u @ dropWhile U s \<and> (\<forall>c \<in> set u. U c)"
  by (metis takeWhile_dropWhile_id set_takeWhileD)

lemma startswith_iff: "startswith s p \<longleftrightarrow> (\<exists>r. s = p @ r)"
  unfolding startswith_def
  by (metis append_eq_conv_conj append_take_drop_id)

lemma strip_by_keeps_start:
  assumes sub: "\<And>c. p c \<Longrightarrow> U c" and ne: "P \<noteq> []" and hd: "\<not> U (hd P)"
    and st: "startswith (dropWhile U (strip_by p s)) P"
  shows "startswith (dropWhile U s) P"
proof -
  obtain x where x: "strip_by p s @ x = dropWhile p s"
    using strip_by_prefix by blast
  obtain r where r: "dropWhile U (strip_by p s) = P @ r"
    using st startswith_iff by blast
  obtain u where u: "strip_by p s = u @ P @ r" "\<forall>c \<in> set u. U c"
    using dropWhile_decomp [of "strip_by p s" U] r by auto
  obtain v where v: "s = v @ dropWhile p s" "\<forall>c \<in> set v. p c"
    using dropWhile_decomp [of s p] by blast
  have "s = (v @ u) @ P @ (r @ x)"
    using v(1) x u(1) by (metis append.assoc)
  moreover have "\<forall>c \<in> set (v @ u). U c"
    using u(2) v(2) sub by auto
  ultimately have "dropWhile U s = P @ (r @ x)"
    using dropWhile_skip [of "v @ u" U P "r @ x"] ne hd by simp
  then show ?thesis
    using startswith_iff by blast
qed

lemma of_char_digit_char: "d < 10 \<Longrightarrow> (of_char (digit_char d) :: nat) = 48 + d"
  by (simp add: digit_char_def)

lemma is_digit_digit_char: "d < 10 \<Longrightarrow> is_digit (digit_char d)"
  by (simp add: is_digit_def of_char_digit_char)

lemma digit_val_digit_char: "d < 10 \<Longrightarrow> digit_val (digit_char d) = d"
  by (simp add: digit_val_def of_char_digit_char)

lemma str_nat_digits: "\<forall>c \<in> set (str_nat n). is_digit c"
  by (induction n rule: str_nat.induct) (subst str_nat.simps, auto simp: is_digit_digit_char)

lemma str_nat_nonempty: "str_nat n \<noteq> []"
  by (subst str_nat.simps) simp

lemma int_digits_snoc:
  "\<forall>c \<in> set ds. is_digit c \<Longrightarrow> is_digit d \<Longrightarrow>
   int_digits acc (ds @ [d]) = map_option (\<lambda>v. v * 10 + digit_val d) (int_digits acc ds)"
  by (induction ds arbitrary: acc) auto

lemma int_unsigned_snoc:
  "ds \<noteq> [] \<Longrightarrow> \<forall>c \<in> set ds. is_digit c \<Longrightarrow> is_digit d \<Longrightarrow>
   int_unsigned (ds @ [d]) = map_option (\<lambda>v. v * 10 + digit_val d) (int_unsigned ds)"
  by (cases ds) (auto simp: int_unsigned_def int_digits_snoc)

lemma int_unsigned_str_nat: "int_unsigned (str_nat n) = Some n"
proof (induction n rule: str_nat.induct)
  case (1 n)
  show ?case
  proof (cases "n < 10")
    case True
    then show ?thesis
      by (subst str_nat.simps)
         (simp add: int_unsigned_def is_digit_digit_char digit_val_digit_char)
  next
    case False
    have "int_unsigned (str_nat (n div 10) @ [digit_char (n mod 10)])
            = Some (n div 10 * 10 + n mod 10)"
      using 1 False
      by (simp add: int_unsigned_snoc str_nat_nonempty str_nat_digits
                    is_digit_digit_char digit_val_digit_char)
    then show ?thesis
      using False by (subst str_nat.simps) simp
  qed
qed

lemma is_digit_not_space: "is_digit c \<Longrightarrow> \<not> py_isspace c"
  by (auto simp: is_digit_def py_isspace_def)

lemma is_digit_neq: "is_digit c \<Longrightarrow> c \<noteq> CHR ''-'' \<and> c \<noteq> CHR ''+'' \<and> c \<noteq> CHR '':''
    \<and> c \<noteq> CHR ''/'' \<and> c \<noteq> CHR ''*''"
  by (auto simp: is_digit_def)

lemma py_str_chars:
  "\<forall>c \<in> set (py_str i). is_digit c \<or> c = CHR ''-''"
  using str_nat_digits by (auto simp: py_str_def)

lemma py_str_nonempty: "py_str i \<noteq> []"
  by (simp add: py_str_def str_nat_nonempty)

lemma str_nat_last: "is_digit (last (str_nat n))"
  using str_nat_digits [of n] str_nat_nonempty [of n] last_in_set by blast

lemma str_nat_hd: "is_digit (hd (str_nat n))"
  using str_nat_digits [of n] str_nat_nonempty [of n] hd_in_set by blast

lemma py_str_last: "is_digit (last (py_str i))"
  by (simp add: py_str_def str_nat_nonempty str_nat_last)

lemma is_digit_not_int_space: "is_digit c \<Longrightarrow> \<not> int_isspace c"
  by (auto simp: is_digit_def int_isspace_def)

lemma py_str_hd: "\<not> int_isspace (hd (py_str i))"
proof (cases "i < 0")
  case True
  then show ?thesis by (simp add: py_str_def int_isspace_def)
next
  case False
  then have "is_digit (hd (py_str i))"
    by (simp add: py_str_def str_nat_hd)
  then show ?thesis by (rule is_digit_not_int_space)
qed

lemma py_strip_py_str: "strip_by int_isspace (py_str i) = py_str i"
  by (rule strip_by_id)
     (simp_all add: py_str_nonempty py_str_hd py_str_last is_digit_not_int_space)

lemma py_int_py_str: "py_int (py_str i) = Some i"
proof (cases "i < 0")
  case True
  have "py_str i = CHR ''-'' # str_nat (nat (- i))"
    using True by (simp add: py_str_def)
  then show ?thesis
    using True py_strip_py_str [of i]
    by (simp add: py_int_def int_unsigned_str_nat)
next
  case False
  obtain c cs where cs: "str_nat (nat i) = c # cs"
    using str_nat_nonempty by (cases "str_nat (nat i)") auto
  have d: "is_digit c"
    using str_nat_digits [of "nat i"] cs by simp
  have "py_str i = c # cs"
    using False cs by (simp add: py_str_def)
  then show ?thesis
    using False py_strip_py_str [of i] is_digit_neq [OF d] int_unsigned_str_nat [of "nat i"] cs
    by (simp add: py_int_def)
qed

lemma py_str_no_colon: "CHR '':'' \<notin> set (py_str i)"
  using py_str_chars [of i] is_digit_neq by fastforce


lemma py_in_prefix: "py_in sub (sub @ r)"
proof (cases "sub @ r")
  case Nil
  then show ?thesis by simp
next
  case (Cons a list)
  have "take (length sub) (sub @ r) = sub" by simp
  then show ?thesis
    using Cons by (simp add: startswith_def)
qed

lemma prefix_no_colon: "CHR '':'' \<notin> set COMMENT_PREFIX"
  by (simp add: COMMENT_PREFIX_def)

lemma prefix_hd: "COMMENT_PREFIX = CHR ''S'' # tl COMMENT_PREFIX"
  by (simp add: COMMENT_PREFIX_def)

lemma strip_chain_id:
  assumes "s \<noteq> []" and "\<not> comment_edge (hd s)" and "\<not> comment_edge (last s)"
  shows "py_strip (py_strip_chars ''*/'' (py_strip_chars ''/*'' (py_strip s))) = s"
proof -
  have a: "py_strip s = s"
    unfolding py_strip_def using assms by (intro strip_by_id) (auto simp: comment_edge_def)
  have b: "py_strip_chars ''/*'' s = s"
    unfolding py_strip_chars_def using assms by (intro strip_by_id) (auto simp: comment_edge_def)
  have c: "py_strip_chars ''*/'' s = s"
    unfolding py_strip_chars_def using assms by (intro strip_by_id) (auto simp: comment_edge_def)
  show ?thesis by (simp add: a b c)
qed

lemma parse_comment_encoded:
  assumes suid: "CHR '':'' \<notin> set suid"
    and cm: "comment = COMMENT_PREFIX @ CHR '':'' # suid @ CHR '':'' # py_str ts @ tail"
    and rem: "py_split CHR '':'' (py_str ts @ tail) = py_str ts # remaining"
    and lst: "\<not> comment_edge (last comment)"
  shows "parse_comment comment =
           Some (suid, ts,
                 (if (if remaining \<noteq> [] \<and> last remaining = ''NOT_DELETE''
                      then butlast remaining else remaining) \<noteq> []
                  then Some (py_join '':'' (if remaining \<noteq> [] \<and> last remaining = ''NOT_DELETE''
                      then butlast remaining else remaining))
                  else None),
                 remaining \<noteq> [] \<and> last remaining = ''NOT_DELETE'')"
proof -
  have ne: "comment \<noteq> []" using cm by simp
  have "hd comment = CHR ''S''"
    using cm prefix_hd by (metis append_Cons list.sel(1))
  then have hd: "\<not> comment_edge (hd comment)"
    by (simp add: comment_edge_def py_isspace_def)
  have raw: "py_strip (py_strip_chars ''*/'' (py_strip_chars ''/*'' (py_strip comment))) = comment"
    using strip_chain_id [OF ne hd lst] .
  have inn: "py_in COMMENT_PREFIX comment"
    using cm py_in_prefix by simp
  have st: "startswith comment (COMMENT_PREFIX @ '':'')"
    using cm by (simp add: startswith_def)
  have parts: "py_split CHR '':'' comment = COMMENT_PREFIX # suid # py_str ts # remaining"
    using cm rem suid prefix_no_colon
    by (simp add: py_split_append_sep py_split_no_sep)
  show ?thesis
    unfolding parse_comment_def
    using ne inn st
    by (simp add: raw parts py_int_py_str Let_def)
qed

lemma endswith_append: "endswith (x @ y) y"
  by (simp add: endswith_def)

lemma last_split_endswith:
  assumes "last (py_split sep e) = q"
  shows "endswith (sep # e) (sep # q)"
proof -
  have ne: "py_split sep e \<noteq> []" by (rule py_split_nonempty)
  have e: "e = py_join [sep] (butlast (py_split sep e) @ [q])"
    using assms ne by (metis append_butlast_last_id py_join_split)
  show ?thesis
  proof (cases "butlast (py_split sep e) = []")
    case True
    then have "sep # e = [] @ sep # q"
      using e by (simp add: py_join_snoc)
    then show ?thesis using endswith_append by metis
  next
    case False
    then have "sep # e = (sep # py_join [sep] (butlast (py_split sep e))) @ sep # q"
      using e by (simp add: py_join_snoc)
    then show ?thesis using endswith_append by metis
  qed
qed

lemma parse_comment_not_ours:
  assumes "\<not> startswith (dropWhile comment_edge c) (COMMENT_PREFIX @ '':'')"
  shows "parse_comment c = None"
proof (rule ccontr)
  assume "parse_comment c \<noteq> None"
  then have st: "startswith (py_strip (py_strip_chars ''*/'' (py_strip_chars ''/*'' (py_strip c))))
                   (COMMENT_PREFIX @ '':'')"
    unfolding parse_comment_def by (auto simp: Let_def split: if_splits)
  let ?P = "COMMENT_PREFIX @ '':''"
  have ne: "?P \<noteq> []" by simp
  have hdP: "\<not> comment_edge (hd ?P)"
    by (simp add: COMMENT_PREFIX_def comment_edge_def py_isspace_def)
  have ws: "\<And>x. py_isspace x \<Longrightarrow> comment_edge x"
    by (simp add: comment_edge_def)
  have sl: "\<And>x. x \<in> set ''/*'' \<Longrightarrow> comment_edge x"
    by (auto simp: comment_edge_def)
  have ls: "\<And>x. x \<in> set ''*/'' \<Longrightarrow> comment_edge x"
    by (auto simp: comment_edge_def)
  let ?r = "py_strip (py_strip_chars ''*/'' (py_strip_chars ''/*'' (py_strip c)))"
  have "?r \<noteq> []" using st by (auto simp: startswith_def)
  moreover have "hd ?r = hd ?P"
    using st by (auto simp: startswith_iff COMMENT_PREFIX_def)
  ultimately have "dropWhile comment_edge ?r = ?r"
    using hdP by (simp add: dropWhile_hd_id)
  then have 0: "startswith (dropWhile comment_edge ?r) ?P"
    using st by simp
  have 1: "startswith (dropWhile comment_edge (py_strip_chars ''*/'' (py_strip_chars ''/*'' (py_strip c)))) ?P"
    using strip_by_keeps_start [OF ws ne hdP 0 [unfolded py_strip_def [of "py_strip_chars ''*/'' (py_strip_chars ''/*'' (py_strip c))"]]] .
  have 2: "startswith (dropWhile comment_edge (py_strip_chars ''/*'' (py_strip c))) ?P"
    using strip_by_keeps_start [OF ls ne hdP 1 [unfolded py_strip_chars_def [of "''*/''"]]] .
  have 3: "startswith (dropWhile comment_edge (py_strip c)) ?P"
    using strip_by_keeps_start [OF sl ne hdP 2 [unfolded py_strip_chars_def [of "''/*''"]]] .
  have 4: "startswith (dropWhile comment_edge c) ?P"
    using strip_by_keeps_start [OF ws ne hdP 3 [unfolded py_strip_def [of c]]] .
  show False using 4 assms by simp
qed

lemma parse_comment_comment_for:
  assumes suid: "CHR '':'' \<notin> set suid"
    and ex: "extra \<noteq> Some []"
    and np: "\<not> preserve \<Longrightarrow>
             (case extra of None \<Rightarrow> True
              | Some e \<Rightarrow> \<not> comment_edge (last e) \<and> \<not> endswith (CHR '':'' # e) '':NOT_DELETE'')"
  shows "parse_comment (comment_for now suid created_ts extra preserve)
           = Some (suid, (case created_ts of None \<Rightarrow> now | Some t \<Rightarrow> t), extra, preserve)"
proof -
  define ts where "ts = (case created_ts of None \<Rightarrow> now | Some t \<Rightarrow> t)"
  define base where "base = COMMENT_PREFIX @ CHR '':'' # suid @ CHR '':'' # py_str ts"
  have E: "\<not> comment_edge CHR ''E''"
    by (simp add: comment_edge_def py_isspace_def)
  have D: "\<not> comment_edge (last (py_str ts))"
    using py_str_last [of ts] is_digit_not_space is_digit_neq
    by (auto simp: comment_edge_def)
  show ?thesis
  proof (cases extra)
    case None
    show ?thesis
    proof (cases preserve)
      case False
      have cm: "comment_for now suid created_ts extra preserve
                  = COMMENT_PREFIX @ CHR '':'' # suid @ CHR '':'' # py_str ts @ []"
        using None False by (simp add: comment_for_def ts_def)
      have rem: "py_split CHR '':'' (py_str ts @ []) = py_str ts # []"
        by (simp add: py_split_no_sep py_str_no_colon)
      have lst: "\<not> comment_edge (last (comment_for now suid created_ts extra preserve))"
        using D by (simp add: cm py_str_nonempty)
      show ?thesis
        using parse_comment_encoded [OF suid cm rem lst] None False by (simp add: ts_def)
    next
      case True
      have cm: "comment_for now suid created_ts extra preserve
                  = COMMENT_PREFIX @ CHR '':'' # suid @ CHR '':'' # py_str ts @ '':NOT_DELETE''"
        using None True by (simp add: comment_for_def ts_def)
      have rem: "py_split CHR '':'' (py_str ts @ '':NOT_DELETE'') = py_str ts # [''NOT_DELETE'']"
        using py_split_append_sep [of "CHR '':''" "py_str ts" "''NOT_DELETE''"]
        by (simp add: py_split_no_sep py_str_no_colon)
      have lst: "\<not> comment_edge (last (comment_for now suid created_ts extra preserve))"
        using E by (simp add: cm)
      show ?thesis
        using parse_comment_encoded [OF suid cm rem lst] None True by (simp add: ts_def)
    qed
  next
    case (Some e)
    then have ene: "e \<noteq> []" using ex by simp
    have sp: "py_split CHR '':'' e \<noteq> []" by (rule py_split_nonempty)
    show ?thesis
    proof (cases preserve)
      case False
      have cond: "\<not> comment_edge (last e)" "\<not> endswith (CHR '':'' # e) '':NOT_DELETE''"
        using np [OF False] Some by simp_all
      have cm: "comment_for now suid created_ts extra preserve
                  = COMMENT_PREFIX @ CHR '':'' # suid @ CHR '':'' # py_str ts @ CHR '':'' # e"
        using Some False ene by (simp add: comment_for_def ts_def)
      have rem: "py_split CHR '':'' (py_str ts @ CHR '':'' # e) = py_str ts # py_split CHR '':'' e"
        by (simp add: py_split_append_sep py_split_no_sep py_str_no_colon)
      have lst: "\<not> comment_edge (last (comment_for now suid created_ts extra preserve))"
        using cond(1) ene by (simp add: cm)
      have nd: "last (py_split CHR '':'' e) \<noteq> ''NOT_DELETE''"
        using last_split_endswith [of "CHR '':''" e "''NOT_DELETE''"] cond(2) by auto
      show ?thesis
        using parse_comment_encoded [OF suid cm rem lst] Some False nd sp
        by (simp add: ts_def py_join_split)
    next
      case True
      have cm: "comment_for now suid created_ts extra preserve
                  = COMMENT_PREFIX @ CHR '':'' # suid @ CHR '':'' # py_str ts
                      @ CHR '':'' # e @ '':NOT_DELETE''"
        using Some True ene by (simp add: comment_for_def ts_def)
      have "py_split CHR '':'' (e @ CHR '':'' # ''NOT_DELETE'')
              = py_split CHR '':'' e @ [''NOT_DELETE'']"
        by (simp only: py_split_append_sep) simp
      then have rem: "py_split CHR '':'' (py_str ts @ CHR '':'' # e @ '':NOT_DELETE'')
                  = py_str ts # (py_split CHR '':'' e @ [''NOT_DELETE''])"
        by (simp add: py_split_append_sep py_split_no_sep py_str_no_colon)
      have lst: "\<not> comment_edge (last (comment_for now suid created_ts extra preserve))"
        using E by (simp add: cm)
      show ?thesis
        using parse_comment_encoded [OF suid cm rem lst] Some True sp
        by (simp add: ts_def py_join_split)
    qed
  qed
qed





section \<open>Heartbeat removal\<close>

text \<open>
  C10. \<open>heartbeat_remove\<close> returns \<open>True\<close> when the heartbeat file exists and is deleted
  and when it does not exist, and \<open>False\<close> (leaving the directory as it was) when the
  operating system refuses the unlink. After a call that returned \<open>True\<close>, a second call
  returns \<open>True\<close> again and leaves the directory unchanged.
\<close>

theorem heartbeat_remove_idempotent:
  "(fs (hb_path_of d suid) = Some (Regular_file m) \<longrightarrow>
      heartbeat_remove fs suid d = (True, fs(hb_path_of d suid := None)))
   \<and> (fs (hb_path_of d suid) = None \<longrightarrow> heartbeat_remove fs suid d = (True, fs))
   \<and> (fs (hb_path_of d suid) = Some Denied \<longrightarrow> heartbeat_remove fs suid d = (False, fs))
   \<and> (fst (heartbeat_remove fs suid d) \<longrightarrow>
        heartbeat_remove (snd (heartbeat_remove fs suid d)) suid d
          = (True, snd (heartbeat_remove fs suid d)))"
  by (cases "fs (hb_path_of d suid)")
     (auto simp: heartbeat_remove_def os_unlink_def Let_def split: fs_entry.splits)

theorem heartbeat_remove_idempotent_witness:
  "heartbeat_remove [''/run/stormshadow/ab12.hb'' \<mapsto> Regular_file 100] ''ab12'' ''/run/stormshadow''
     = (True, ([''/run/stormshadow/ab12.hb'' \<mapsto> Regular_file 100])(''/run/stormshadow/ab12.hb'' := None))
   \<and> heartbeat_remove Map.empty ''ab12'' ''/run/stormshadow'' = (True, Map.empty)
   \<and> heartbeat_remove [''/run/stormshadow/ab12.hb'' \<mapsto> Denied] ''ab12'' ''/run/stormshadow''
     = (False, [''/run/stormshadow/ab12.hb'' \<mapsto> Denied])
   \<and> heartbeat_remove
         (snd (heartbeat_remove [''/run/stormshadow/ab12.hb'' \<mapsto> Regular_file 100]
                 ''ab12'' ''/run/stormshadow''))
         ''ab12'' ''/run/stormshadow''
     = (True, snd (heartbeat_remove [''/run/stormshadow/ab12.hb'' \<mapsto> Regular_file 100]
                     ''ab12'' ''/run/stormshadow''))"
proof -
  have p: "hb_path_of ''/run/stormshadow'' ''ab12'' = ''/run/stormshadow/ab12.hb''"
    by (simp add: hb_path_of_def path_join_def startswith_def endswith_def)
  note t = heartbeat_remove_idempotent [of _ "''/run/stormshadow''" "''ab12''", unfolded p]
  have a: "fst (heartbeat_remove [''/run/stormshadow/ab12.hb'' \<mapsto> Regular_file 100]
                  ''ab12'' ''/run/stormshadow'')"
    using t [of "[''/run/stormshadow/ab12.hb'' \<mapsto> Regular_file 100]" 100] by simp
  show ?thesis
    using t [of "[''/run/stormshadow/ab12.hb'' \<mapsto> Regular_file 100]" 100]
      t [of Map.empty 0] t [of "[''/run/stormshadow/ab12.hb'' \<mapsto> Denied]" 0] a
    by simp
qed

section \<open>Garbage-collection decision\<close>

lemmas gc_eval =
  should_remove_def parse_comment_def COMMENT_PREFIX_def startswith_def endswith_def
  py_strip_def py_strip_chars_def strip_by_def py_isspace_def int_isspace_def py_int_def
  int_unsigned_def
  is_digit_def digit_val_def path_join_def os_stat_def half_ttl_of_def




text \<open>
  C2, on the code. With \<open>ttl = 7200\<close>: a rule aged 10000 seconds whose owner's heartbeat
  is 10 seconds old is returned for removal, and a rule aged 1000 seconds with no
  heartbeat file is returned for removal too.
\<close>

theorem should_remove_staleness_on_code:
  "should_remove 10000 7200 ''/run/stormshadow''
       [''/run/stormshadow/abc.hb'' \<mapsto> Regular_file 9990] ''Stormshadow:abc:0''
     = Inr (Some ''abc'')
   \<and> should_remove 10000 7200 ''/run/stormshadow'' Map.empty ''Stormshadow:abc:9000''
     = Inr (Some ''abc'')"
  by (simp add: gc_eval)

theorem should_remove_staleness_on_code_witness:
  "should_remove 10000 7200 ''/run/stormshadow''
       [''/run/stormshadow/abc.hb'' \<mapsto> Regular_file 9990] ''Stormshadow:abc:0''
     \<noteq> Inr None
   \<and> should_remove 10000 7200 ''/run/stormshadow'' Map.empty ''Stormshadow:abc:9000''
     \<noteq> Inr None"
  using should_remove_staleness_on_code by simp



section \<open>Comment round trip\<close>

text \<open>
  C3. As stated, the round trip fails: an owner containing a colon is cut at the colon (here
  the timestamp field then fails to convert and the comment is rejected), an \<open>extra\<close> equal to
  \<open>NOT_DELETE\<close> comes back as the preserve flag, an empty \<open>extra\<close> comes back as
  \<open>None\<close>, and a trailing \<open>*\<close> of \<open>extra\<close> is stripped. A comment in the rendered form
  \<open>/* ... */\<close> does not start with the prefix and is accepted all the same.
\<close>

theorem comment_round_trip_counterexample:
  "parse_comment (comment_for 0 ''a:b'' (Some 1) None False) = None
   \<and> parse_comment (comment_for 0 ''ab'' (Some 1) (Some ''NOT_DELETE'') False)
       = Some (''ab'', 1, None, True)
   \<and> parse_comment (comment_for 0 ''ab'' (Some 1) (Some []) False) = Some (''ab'', 1, None, False)
   \<and> parse_comment (comment_for 0 ''ab'' (Some 1) (Some ''x*'') False)
       = Some (''ab'', 1, Some ''x'', False)
   \<and> \<not> startswith ''/* Stormshadow:ab:1 */'' ''Stormshadow''
   \<and> parse_comment ''/* Stormshadow:ab:1 */'' = Some (''ab'', 1, None, False)"
  by code_simp

text \<open>
  C3, as the code has it. Encoding then decoding gives back \<open>(suid, ts, extra, preserve)\<close>
  (with \<open>ts\<close> the clock reading when no timestamp was passed) whenever the owner contains
  no colon, \<open>extra\<close> is not the empty string and, when the preserve flag is off, \<open>extra\<close>
  neither ends in a stripped character (white space, \<open>/\<close>, \<open>*\<close>) nor is \<open>NOT_DELETE\<close> or
  ends in \<open>:NOT_DELETE\<close>. And a string whose first character other than white space,
  \<open>/\<close> and \<open>*\<close> does not begin \<open>Stormshadow:\<close> decodes to \<open>None\<close>.
\<close>

theorem comment_round_trip:
  "(CHR '':'' \<notin> set suid \<and> extra \<noteq> Some [] \<and>
    (preserve \<or>
      (case extra of
         None \<Rightarrow> True
       | Some e \<Rightarrow> \<not> comment_edge (last e) \<and> \<not> endswith (CHR '':'' # e) '':NOT_DELETE''))
    \<longrightarrow> parse_comment (comment_for now suid created_ts extra preserve)
          = Some (suid, (case created_ts of None \<Rightarrow> now | Some t \<Rightarrow> t), extra, preserve))
   \<and> (\<not> startswith (dropWhile comment_edge c) ''Stormshadow:'' \<longrightarrow> parse_comment c = None)"
proof (intro conjI impI)
  assume a: "CHR '':'' \<notin> set suid \<and> extra \<noteq> Some [] \<and>
    (preserve \<or>
      (case extra of
         None \<Rightarrow> True
       | Some e \<Rightarrow> \<not> comment_edge (last e) \<and> \<not> endswith (CHR '':'' # e) '':NOT_DELETE''))"
  show "parse_comment (comment_for now suid created_ts extra preserve)
          = Some (suid, (case created_ts of None \<Rightarrow> now | Some t \<Rightarrow> t), extra, preserve)"
    using a by (intro parse_comment_comment_for) auto
next
  assume "\<not> startswith (dropWhile comment_edge c) ''Stormshadow:''"
  then show "parse_comment c = None"
    by (intro parse_comment_not_ours) (simp add: COMMENT_PREFIX_def)
qed

theorem comment_round_trip_witness:
  "parse_comment (comment_for 0 ''ab12cd34ef'' (Some 1700000000)
                    (Some ''dnat_to=10.0.0.1:5060'') False)
     = Some (''ab12cd34ef'', 1700000000, Some ''dnat_to=10.0.0.1:5060'', False)
   \<and> parse_comment ''operator rule, not Stormshadow: keep'' = None"
  using comment_round_trip
    [of "''ab12cd34ef''" "Some ''dnat_to=10.0.0.1:5060''" False 0 "Some 1700000000"
        "''operator rule, not Stormshadow: keep''"]
  by (simp add: comment_edge_def py_isspace_def endswith_def startswith_def)

section \<open>The rewrite worker\<close>





section \<open>Starting the coordinator\<close>




section \<open>Removal by owner and session stop\<close>

text \<open>
  C7, on the code. The chain holds one rule of session \<open>1762200000\<close> and one rule of
  session \<open>beefcafe01\<close> that was created at Unix time 1762200000. Removing the rules of
  the first session selects every line that contains its id as a substring, so both rules
  are deleted: the call reports 2 removals and the listing afterwards holds no rule of the
  second session.
\<close>

theorem remove_rules_for_suid_substring:
  \<open>(case remove_rules_for_suid iptables ''1762200000'' ''filter'' ''STORMSHADOW'' False
           [(''filter'', ''STORMSHADOW'') \<mapsto>
              [''-N STORMSHADOW'',
               ''-A STORMSHADOW -p udp -m udp --dport 5060 -m comment --comment "Stormshadow:1762200000:1762200500:udp_dport=5060;queue=1" -j NFQUEUE --queue-num 1'',
               ''-A STORMSHADOW -p udp -m udp --dport 5062 -m comment --comment "Stormshadow:beefcafe01:1762200000:udp_dport=5062;queue=2" -j NFQUEUE --queue-num 2'']] of
      (removed, fw') \<Rightarrow> (removed, fw' (''filter'', ''STORMSHADOW'')))
    = (Inr 2, Some [''-N STORMSHADOW''])\<close>
  by code_simp

text \<open>
  C6, on the code. The session \<open>ab12cd34ef\<close> owns a queue rule in the filter table's
  chain \<open>STORMSHADOW\<close> and a return-path rule in the nat table's chain
  \<open>STORMSHADOW-NAT\<close>; the module's own teardown removes nothing. \<open>stop\<close> ends in status
  \<open>STOPPED\<close> and has removed the filter rule, but the nat rule is still listed: the
  second removal lists the chain \<open>STORMSHADOW\<close> of the nat table, which does not exist.
\<close>

theorem AttackSession_stop_keeps_nat_rule:
  \<open>(case AttackSession_stop iptables
           \<lparr>dry_run_implemented = False,
            attack_stop_spoofing = (\<lambda>fw. (None, fw)),
            attack_stop = (\<lambda>fw. (None, fw))\<rparr>
           \<lparr>session_dry_run = False, session_status = RUNNING, enable_spoofing = True,
            session_suid = ''ab12cd34ef'', use_default_spoofing = False\<rparr>
           [(''filter'', ''STORMSHADOW'') \<mapsto>
              [''-N STORMSHADOW'',
               ''-A STORMSHADOW -p udp -m udp --dport 5060 -m comment --comment "Stormshadow:ab12cd34ef:1762200000:udp_dport=5060;queue=1" -j NFQUEUE --queue-num 1''],
            (''nat'', ''STORMSHADOW-NAT'') \<mapsto>
              [''-N STORMSHADOW-NAT'',
               ''-A STORMSHADOW-NAT -d 10.10.123.0/25 -p udp -m comment --comment "Stormshadow:ab12cd34ef:1762200000:dnat_to=10.0.0.5:5060" -j DNAT --to-destination 10.0.0.5:5060'']] of
      (sess', fw') \<Rightarrow>
        (session_status sess', fw' (''filter'', ''STORMSHADOW''),
         fw' (''nat'', ''STORMSHADOW-NAT'')))
    = (STOPPED, Some [''-N STORMSHADOW''],
       Some [''-N STORMSHADOW-NAT'',
             ''-A STORMSHADOW-NAT -d 10.10.123.0/25 -p udp -m comment --comment "Stormshadow:ab12cd34ef:1762200000:dnat_to=10.0.0.5:5060" -j DNAT --to-destination 10.0.0.5:5060''])\<close>
  by code_simp

end
